theory Spec2Isabelle
  imports Main "HOL-Library.AList" "HOL-Library.Sublist"
begin

section \<open>Python strings\<close>

text \<open>
  A Python \<open>str\<close> is modelled as a \<open>string\<close> whose characters are the code points
  U+0000 to U+00FF. The string methods the scraper calls (\<open>strip\<close>, \<open>lower\<close>,
  \<open>replace(',', '')\<close>, \<open>int(...)\<close>, \<open>str(...)\<close>) are written out for that range.
  The interpreter's configurable limit on the number of digits accepted by \<open>int\<close> and
  produced by \<open>str\<close> is not part of the model.
\<close>

definition code_point :: "char \<Rightarrow> nat" where
  "code_point c = of_char c"

definition is_ascii :: "char \<Rightarrow> bool" where
  "is_ascii c = (code_point c < 128)"

definition is_digit :: "char \<Rightarrow> bool" where
  "is_digit c = (48 \<le> code_point c \<and> code_point c \<le> 57)"

definition is_space :: "char \<Rightarrow> bool" where
  \<comment> \<open>\<open>str.isspace\<close> on one character\<close>
  "is_space c = (let n = code_point c in
     (9 \<le> n \<and> n \<le> 13) \<or> (28 \<le> n \<and> n \<le> 32) \<or> n = 133 \<or> n = 160)"

definition is_c_space :: "char \<Rightarrow> bool" where
  \<comment> \<open>the whitespace the integer parser skips in an all-ASCII string\<close>
  "is_c_space c = (let n = code_point c in (9 \<le> n \<and> n \<le> 13) \<or> n = 32)"

definition is_upper :: "char \<Rightarrow> bool" where
  "is_upper c = (let n = code_point c in
     (65 \<le> n \<and> n \<le> 90) \<or> (192 \<le> n \<and> n \<le> 222 \<and> n \<noteq> 215))"

definition lower_char :: "char \<Rightarrow> char" where
  \<comment> \<open>the lower-case letter is 32 code points up: bit 5 is set\<close>
  "lower_char c = (if is_upper c
     then (case c of Char b0 b1 b2 b3 b4 b5 b6 b7 \<Rightarrow> Char b0 b1 b2 b3 b4 True b6 b7)
     else c)"

definition py_lower :: "string \<Rightarrow> string" where
  "py_lower s = map lower_char s"

definition strip_with :: "(char \<Rightarrow> bool) \<Rightarrow> string \<Rightarrow> string" where
  "strip_with ws s = rev (dropWhile ws (rev (dropWhile ws s)))"

definition py_strip :: "string \<Rightarrow> string" where
  "py_strip s = strip_with is_space s"

definition remove_commas :: "string \<Rightarrow> string" where
  \<comment> \<open>\<open>s.replace(',', '')\<close>\<close>
  "remove_commas s = filter (\<lambda>c. c \<noteq> CHR '','') s"

fun digits_ok :: "string \<Rightarrow> bool" where
  \<comment> \<open>digits, with single underscores allowed between two digits\<close>
  "digits_ok [] = False"
| "digits_ok [c] = is_digit c"
| "digits_ok (c # d # r) =
     (is_digit c \<and> (if d = CHR ''_'' then digits_ok r else digits_ok (d # r)))"

definition digit_value :: "string \<Rightarrow> int" where
  "digit_value s = foldl (\<lambda>a c. 10 * a + (int (code_point c) - 48)) 0 (filter is_digit s)"

definition py_int :: "string \<Rightarrow> int option" where
  \<comment> \<open>\<open>int(s)\<close> in base 10; \<open>None\<close> stands for the \<open>ValueError\<close>\<close>
  "py_int s =
     (let ws = (if list_all is_ascii s then is_c_space else is_space);
          t = strip_with ws s;
          neg = (t \<noteq> [] \<and> hd t = CHR ''-'');
          ds = (if t \<noteq> [] \<and> (hd t = CHR ''-'' \<or> hd t = CHR ''+'') then tl t else t)
      in if digits_ok ds
         then Some (if neg then - digit_value ds else digit_value ds)
         else None)"

definition digit_char :: "nat \<Rightarrow> char" where
  "digit_char d = ''0123456789'' ! (d mod 10)"

fun digits_of :: "nat \<Rightarrow> string" where
  "digits_of n =
     (if n < 10 then [digit_char n] else digits_of (n div 10) @ [digit_char (n mod 10)])"

declare digits_of.simps [simp del]

definition str_int :: "int \<Rightarrow> string" where
  \<comment> \<open>\<open>str(i)\<close> for an integer\<close>
  "str_int i = (if i < 0 then CHR ''-'' # digits_of (nat (- i)) else digits_of (nat i))"

definition hex_char :: "nat \<Rightarrow> char" where
  "hex_char d = ''0123456789abcdef'' ! (d mod 16)"

definition is_printable :: "char \<Rightarrow> bool" where
  "is_printable c = (let n = code_point c in
     (32 \<le> n \<and> n \<le> 126) \<or> (161 \<le> n \<and> n \<noteq> 173))"

definition repr_char :: "char \<Rightarrow> char \<Rightarrow> string" where
  \<comment> \<open>one character inside \<open>repr\<close> of a string delimited by the quote \<open>q\<close>\<close>
  "repr_char q c =
     (if c = CHR 0x5C then [CHR 0x5C, CHR 0x5C]
      else if c = q then [CHR 0x5C, q]
      else if c = CHR 0x09 then [CHR 0x5C, CHR ''t'']
      else if c = CHR 0x0A then [CHR 0x5C, CHR ''n'']
      else if c = CHR 0x0D then [CHR 0x5C, CHR ''r'']
      else if is_printable c then [c]
      else [CHR 0x5C, CHR ''x'', hex_char (code_point c div 16), hex_char (code_point c mod 16)])"

definition repr_str :: "string \<Rightarrow> string" where
  "repr_str s =
     (let q = (if CHR 0x27 \<in> set s \<and> CHR 0x22 \<notin> set s then CHR 0x22 else CHR 0x27)
      in q # concat (map (repr_char q) s) @ [q])"

fun join :: "string \<Rightarrow> string list \<Rightarrow> string" where
  \<comment> \<open>\<open>sep.join(xs)\<close>\<close>
  "join sep [] = []"
| "join sep [x] = x"
| "join sep (x # y # ys) = x @ sep @ join sep (y # ys)"

section \<open>Values\<close>

text \<open>
  A cell of the input table and a leaf of a JSON document is a scalar. A float is
  identified with its \<open>repr\<close> (\<open>''nan''\<close>, \<open>''20000.0''\<close>): the program only tests a
  float for truth and for being missing, and renders it as text.
\<close>

datatype scalar = SNone | SBool bool | SInt int | SFloat string | SStr string

datatype json = JScalar scalar | JList "json list" | JDict "(string \<times> json) list"

type_synonym csv_row = "(string \<times> scalar) list"

fun truthy_scalar :: "scalar \<Rightarrow> bool" where
  "truthy_scalar SNone = False"
| "truthy_scalar (SBool b) = b"
| "truthy_scalar (SInt i) = (i \<noteq> 0)"
| "truthy_scalar (SFloat r) = (r \<noteq> ''0.0'' \<and> r \<noteq> ''-0.0'')"
| "truthy_scalar (SStr s) = (s \<noteq> [])"

fun str_scalar :: "scalar \<Rightarrow> string" where
  "str_scalar SNone = ''None''"
| "str_scalar (SBool b) = (if b then ''True'' else ''False'')"
| "str_scalar (SInt i) = str_int i"
| "str_scalar (SFloat r) = r"
| "str_scalar (SStr s) = s"

fun pd_isna :: "scalar \<Rightarrow> bool" where
  \<comment> \<open>\<open>pd.isna\<close> on a scalar\<close>
  "pd_isna SNone = True"
| "pd_isna (SFloat r) = (r = ''nan'')"
| "pd_isna _ = False"

fun truthy :: "json \<Rightarrow> bool" where
  "truthy (JScalar s) = truthy_scalar s"
| "truthy (JList xs) = (xs \<noteq> [])"
| "truthy (JDict kvs) = (kvs \<noteq> [])"

fun py_repr :: "json \<Rightarrow> string" where
  "py_repr (JScalar s) = (case s of SStr t \<Rightarrow> repr_str t | _ \<Rightarrow> str_scalar s)"
| "py_repr (JList xs) = ''['' @ join '', '' (map py_repr xs) @ '']''"
| "py_repr (JDict kvs) =
     ''{'' @ join '', '' (map (\<lambda>(k, v). repr_str k @ '': '' @ py_repr v) kvs) @ ''}''"

fun py_str :: "json \<Rightarrow> string" where
  \<comment> \<open>\<open>str(v)\<close>\<close>
  "py_str (JScalar s) = str_scalar s"
| "py_str v = py_repr v"

section \<open>Exceptions\<close>

text \<open>
  Every \<open>raise\<close> the modelled code can reach is a value: the exception's class with the
  text that \<open>str(e)\<close> gives.
\<close>

datatype exn =
    AttributeError string
  | TypeError string
  | KeyError string
  | IndexError string
  | RequestException string

fun exn_str :: "exn \<Rightarrow> string" where
  "exn_str (AttributeError m) = m"
| "exn_str (TypeError m) = m"
| "exn_str (KeyError m) = m"
| "exn_str (IndexError m) = m"
| "exn_str (RequestException m) = m"

fun type_name :: "json \<Rightarrow> string" where
  "type_name (JScalar SNone) = ''NoneType''"
| "type_name (JScalar (SBool b)) = ''bool''"
| "type_name (JScalar (SInt i)) = ''int''"
| "type_name (JScalar (SFloat r)) = ''float''"
| "type_name (JScalar (SStr s)) = ''str''"
| "type_name (JList xs) = ''list''"
| "type_name (JDict kvs) = ''dict''"

definition quoted :: "string \<Rightarrow> string" where
  "quoted s = [CHR 0x27] @ s @ [CHR 0x27]"

definition no_attribute :: "json \<Rightarrow> string \<Rightarrow> exn" where
  "no_attribute v a =
     AttributeError (quoted (type_name v) @ '' object has no attribute '' @ quoted a)"

definition dict_get :: "(string \<times> json) list \<Rightarrow> string \<Rightarrow> json \<Rightarrow> json" where
  \<comment> \<open>\<open>d.get(k, default)\<close>\<close>
  "dict_get d k dflt = (case map_of d k of Some v \<Rightarrow> v | None \<Rightarrow> dflt)"

section \<open>Vehicle search utilities\<close>

type_synonym params = "(string \<times> string) list"

definition present_cell :: "csv_row \<Rightarrow> string \<Rightarrow> scalar option" where
  \<comment> \<open>\<open>k in csv_row and csv_row[k] and not pd.isna(csv_row[k])\<close>, with the cell\<close>
  "present_cell csv_row k =
     (case map_of csv_row k of
        None \<Rightarrow> None
      | Some v \<Rightarrow> if truthy_scalar v \<and> \<not> pd_isna v then Some v else None)"

definition add_text_param :: "string \<Rightarrow> string \<Rightarrow> csv_row \<Rightarrow> params \<Rightarrow> params" where
  "add_text_param csv_field api_key csv_row ps =
     (case present_cell csv_row csv_field of
        None \<Rightarrow> ps
      | Some v \<Rightarrow> AList.update api_key (py_strip (str_scalar v)) ps)"

definition add_range_param ::
  "string \<Rightarrow> string \<Rightarrow> string \<Rightarrow> csv_row \<Rightarrow> params \<Rightarrow> params" where
  "add_range_param csv_field key_from key_to csv_row ps =
     (case present_cell csv_row csv_field of
        None \<Rightarrow> ps
      | Some v \<Rightarrow>
          (case py_int (remove_commas (py_strip (str_scalar v))) of
             None \<Rightarrow> ps
           | Some n \<Rightarrow>
               AList.update key_to (str_int (n + 100))
                 (AList.update key_from (str_int (n - 100)) ps)))"

definition build_fallback_search_params :: "csv_row \<Rightarrow> string \<Rightarrow> string option \<Rightarrow> params" where
  "build_fallback_search_params csv_row dealer_id source =
     (let ps0 = [(''dealer_id'', dealer_id), (''ipLookup'', ''1''),
                 (''sorting_variation'', ''smart_sort_3''), (''paginate'', ''26'')];
          ps1 = (case source of
                   None \<Rightarrow> ps0
                 | Some s \<Rightarrow> if s \<noteq> [] then AList.update ''source'' s ps0 else ps0);
          ps2 = add_text_param ''Make'' ''make'' csv_row ps1;
          ps3 = add_text_param ''Model'' ''model'' csv_row ps2;
          ps4 = add_text_param ''Year'' ''manu_year'' csv_row ps3;
          ps5 = add_range_param ''Price'' ''priceFrom'' ''priceTo'' csv_row ps4
      in add_range_param ''KM'' ''odometerFrom'' ''odometerTo'' csv_row ps5)"

definition extract_vehicle_url :: "json \<Rightarrow> string \<Rightarrow> exn + json" where
  "extract_vehicle_url vehicle_data site_type =
     (if \<not> truthy vehicle_data then Inr (JScalar (SStr []))
      else case vehicle_data of
        JDict d \<Rightarrow>
          (let a = dict_get d ''url'' (JScalar (SStr []));
               url_path = (if truthy a then a else dict_get d ''url_cg'' (JScalar (SStr [])))
           in if \<not> truthy url_path then Inr (JScalar (SStr []))
              else if site_type = ''autotrader''
                then Inr (JScalar (SStr (''https://www.autotrader.com.au/'' @ py_str url_path)))
              else if site_type = ''carsguide''
                then Inr (JScalar (SStr (''https://www.carsguide.com.au/'' @ py_str url_path)))
              else Inr url_path)
      | _ \<Rightarrow> Inl (no_attribute vehicle_data ''get''))"

section \<open>Reconciliation\<close>

fun walk_path :: "json \<Rightarrow> string list \<Rightarrow> json" where
  \<comment> \<open>the loop over \<open>api_path\<close>: a key that is missing, or a value that is not a dict, gives \<open>None\<close>\<close>
  "walk_path v [] = v"
| "walk_path v (key # keys) =
     (case v of
        JDict d \<Rightarrow> (case map_of d key of Some w \<Rightarrow> walk_path w keys | None \<Rightarrow> JScalar SNone)
      | _ \<Rightarrow> JScalar SNone)"

definition autotrader_comparison_fields :: "(string \<times> string list) list" where
  "autotrader_comparison_fields =
     [(''Fuel'', [''vehicle'', ''fuel_type'']),
      (''Model'', [''model'']),
      (''Seats'', [''vehicle'', ''seats'']),
      (''Doors'', [''vehicle'', ''doors'']),
      (''Transmission'', [''vehicle'', ''transmission_type'']),
      (''Tansmission'', [''vehicle'', ''transmission_type'']),
      (''Price'', [''price'', ''advertised_price''])]"

definition autotrader_compare_field ::
  "csv_row \<Rightarrow> json \<Rightarrow> string list \<Rightarrow> string \<times> string list \<Rightarrow> string list" where
  \<comment> \<open>one turn of the loop over \<open>comparison_fields\<close>; \<open>mismatched\<close> is the list so far\<close>
  "autotrader_compare_field csv_data vehicle_data mismatched fp =
     (case fp of (csv_field, api_path) \<Rightarrow>
      (case map_of csv_data csv_field of
         None \<Rightarrow> mismatched
       | Some cell \<Rightarrow>
           if \<not> truthy_scalar cell then mismatched
           else
             (let api_value = walk_path vehicle_data api_path in
              if csv_field = ''Price'' \<and> api_value \<noteq> JScalar SNone \<and> truthy_scalar cell then
                (case py_int (remove_commas (py_strip (str_scalar cell))) of
                   None \<Rightarrow> mismatched @ [csv_field @ '': Couldn't compare'']
                 | Some csv_price \<Rightarrow>
                     (case py_int (remove_commas (py_strip (py_str api_value))) of
                        None \<Rightarrow> mismatched @ [csv_field @ '': Couldn't compare'']
                      | Some api_price \<Rightarrow>
                          if \<bar>csv_price - api_price\<bar> > 100
                          then mismatched @
                            [csv_field @ '': CSV='' @ str_int csv_price @ '', API='' @ str_int api_price]
                          else mismatched))
              else if api_value \<noteq> JScalar SNone then
                (let csv_value = py_strip (str_scalar cell);
                     api_value_str = py_strip (py_str api_value)
                 in if py_lower csv_value \<noteq> py_lower api_value_str
                    then mismatched @ [csv_field @ '': CSV='' @ csv_value @ '', API='' @ api_value_str]
                    else mismatched)
              else mismatched)))"

definition autotrader_compare_loop :: "csv_row \<Rightarrow> json \<Rightarrow> string \<times> string list" where
  \<comment> \<open>the comparison loop and the status chosen after it\<close>
  "autotrader_compare_loop csv_data vehicle_data =
     (let mismatched =
            foldl (autotrader_compare_field csv_data vehicle_data) [] autotrader_comparison_fields
      in if mismatched \<noteq> [] then (''Mismatched'', mismatched) else (''Found'', []))"

definition autotrader_compare_data :: "csv_row \<Rightarrow> json \<Rightarrow> exn + string \<times> string list" where
  "autotrader_compare_data csv_data vehicle_data =
     (if \<not> truthy vehicle_data then Inr (''Not Found'', [])
      else case vehicle_data of
        JDict d \<Rightarrow>
          (let status = dict_get d ''status'' (JScalar SNone) in
           if truthy status then
             (case status of
                JScalar (SStr s) \<Rightarrow>
                  if py_lower s \<noteq> ''live'' then
                    (if py_lower s = ''sold'' then Inr (''Sold'', [])
                     else if py_lower s = ''on offer'' then Inr (''On Offer'', [])
                     else Inr (autotrader_compare_loop csv_data vehicle_data))
                  else Inr (autotrader_compare_loop csv_data vehicle_data)
              | _ \<Rightarrow> Inl (no_attribute status ''lower''))
           else Inr (autotrader_compare_loop csv_data vehicle_data))
      | _ \<Rightarrow> Inl (no_attribute vehicle_data ''get''))"

definition carsguide_comparison_fields :: "(string \<times> string list) list" where
  "carsguide_comparison_fields =
     [(''Fuel'', [''vehicle'', ''fuel_type'']),
      (''Model'', [''model'']),
      (''Seats'', [''vehicle'', ''seats'']),
      (''Doors'', [''vehicle'', ''doors'']),
      (''Transmission'', [''vehicle'', ''transmission_type'']),
      (''Tansmission'', [''vehicle'', ''transmission_type'']),
      (''Price'', [''price'', ''advertised_price''])]"

definition carsguide_compare_field ::
  "csv_row \<Rightarrow> json \<Rightarrow> string list \<Rightarrow> string \<times> string list \<Rightarrow> string list" where
  "carsguide_compare_field csv_data vehicle_data mismatched fp =
     (case fp of (csv_field, api_path) \<Rightarrow>
      (case map_of csv_data csv_field of
         None \<Rightarrow> mismatched
       | Some cell \<Rightarrow>
           if \<not> truthy_scalar cell then mismatched
           else
             (let api_value = walk_path vehicle_data api_path in
              if csv_field = ''Price'' \<and> api_value \<noteq> JScalar SNone \<and> truthy_scalar cell then
                (case py_int (remove_commas (py_strip (str_scalar cell))) of
                   None \<Rightarrow> mismatched @ [csv_field @ '': Couldn't compare'']
                 | Some csv_price \<Rightarrow>
                     (case py_int (remove_commas (py_strip (py_str api_value))) of
                        None \<Rightarrow> mismatched @ [csv_field @ '': Couldn't compare'']
                      | Some api_price \<Rightarrow>
                          if \<bar>csv_price - api_price\<bar> > 100
                          then mismatched @
                            [csv_field @ '': CSV='' @ str_int csv_price @ '', API='' @ str_int api_price]
                          else mismatched))
              else if api_value \<noteq> JScalar SNone then
                (let csv_value = py_strip (str_scalar cell);
                     api_value_str = py_strip (py_str api_value)
                 in if py_lower csv_value \<noteq> py_lower api_value_str
                    then mismatched @ [csv_field @ '': CSV='' @ csv_value @ '', API='' @ api_value_str]
                    else mismatched)
              else mismatched)))"

definition carsguide_compare_loop :: "csv_row \<Rightarrow> json \<Rightarrow> string \<times> string list" where
  "carsguide_compare_loop csv_data vehicle_data =
     (let mismatched =
            foldl (carsguide_compare_field csv_data vehicle_data) [] carsguide_comparison_fields
      in if mismatched \<noteq> [] then (''Mismatched'', mismatched) else (''Found'', []))"

definition carsguide_compare_data :: "csv_row \<Rightarrow> json \<Rightarrow> exn + string \<times> string list" where
  "carsguide_compare_data csv_data vehicle_data =
     (if \<not> truthy vehicle_data then Inr (''Not Found'', [])
      else case vehicle_data of
        JDict d \<Rightarrow>
          (let status = dict_get d ''status'' (JScalar SNone) in
           if truthy status then
             (case status of
                JScalar (SStr s) \<Rightarrow>
                  if py_lower s \<noteq> ''live'' then
                    (if py_lower s = ''sold'' then Inr (''Sold'', [])
                     else if py_lower s = ''on offer'' then Inr (''On Offer'', [])
                     else Inr (carsguide_compare_loop csv_data vehicle_data))
                  else Inr (carsguide_compare_loop csv_data vehicle_data)
              | _ \<Rightarrow> Inl (no_attribute status ''lower''))
           else Inr (carsguide_compare_loop csv_data vehicle_data))
      | _ \<Rightarrow> Inl (no_attribute vehicle_data ''get''))"

section \<open>The network and the clock\<close>

text \<open>
  The session, the clock and the file system are a \<open>world\<close> passed through every call.
  The network answers from a script: each \<open>session.get\<close> takes the next outcome, a
  response (status code, and the decoded JSON body or \<open>None\<close> when \<open>response.json()\<close>
  raises) or a failure of the transport, which raises; a script that has run out
  answers with a failure. Every request, every pause (with the bounds of its random
  duration, in seconds) and every file written is appended to the trace.
\<close>

record request =
  req_url :: string
  req_params :: params
  req_headers :: "(string \<times> string) list"
  req_timeout :: nat

datatype event = Get request | Sleep nat nat | SaveJson string

datatype outcome = Response int "json option" | Failure string

record world =
  pending :: "outcome list"
  trace :: "event list"

definition reply :: "outcome list \<Rightarrow> exn + int \<times> json option" where
  \<comment> \<open>what the next request receives from the script\<close>
  "reply p =
     (case p of
        [] \<Rightarrow> Inl (RequestException ''no response'')
      | Response code body # rest \<Rightarrow> Inr (code, body)
      | Failure m # rest \<Rightarrow> Inl (RequestException m))"

definition session_get :: "request \<Rightarrow> world \<Rightarrow> (exn + int \<times> json option) \<times> world" where
  "session_get r w =
     (reply (pending w), w\<lparr>pending := tl (pending w), trace := trace w @ [Get r]\<rparr>)"

definition add_delay :: "nat \<Rightarrow> nat \<Rightarrow> world \<Rightarrow> world" where
  \<comment> \<open>\<open>time.sleep(random.uniform(min_seconds, max_seconds))\<close>\<close>
  "add_delay min_seconds max_seconds w = w\<lparr>trace := trace w @ [Sleep min_seconds max_seconds]\<rparr>"

definition save_json_file :: "string \<Rightarrow> world \<Rightarrow> world" where
  \<comment> \<open>the file name without its time stamp; a failure to write is caught inside\<close>
  "save_json_file filename w = w\<lparr>trace := trace w @ [SaveJson filename]\<rparr>"

definition get_default_headers :: "(string \<times> string) list" where
  \<open>get_default_headers =
     [(''accept'', ''*/*''),
      (''accept-language'', ''en-US,en;q=0.9''),
      (''priority'', ''u=1, i''),
      (''sec-ch-ua'',
         [CHR 0x22] @ ''Not;A=Brand'' @ [CHR 0x22] @ '';v='' @ [CHR 0x22] @ ''99'' @ [CHR 0x22] @ '', '' @
         [CHR 0x22] @ ''Google Chrome'' @ [CHR 0x22] @ '';v='' @ [CHR 0x22] @ ''139'' @ [CHR 0x22] @ '', '' @
         [CHR 0x22] @ ''Chromium'' @ [CHR 0x22] @ '';v='' @ [CHR 0x22] @ ''139'' @ [CHR 0x22]),
      (''sec-ch-ua-mobile'', ''?0''),
      (''sec-ch-ua-platform'', [CHR 0x22] @ ''Windows'' @ [CHR 0x22]),
      (''sec-fetch-dest'', ''empty''),
      (''sec-fetch-mode'', ''cors''),
      (''sec-fetch-site'', ''same-site''),
      (''user-agent'',
         ''Mozilla/5.0 (Windows NT 10.0; Win64; x64) AppleWebKit/537.36 (KHTML, like Gecko) Chrome/139.0.0.0 Safari/537.36'')]\<close>

section \<open>Operations on decoded JSON\<close>

definition bind_exn :: "exn + 'a \<Rightarrow> ('a \<Rightarrow> exn + 'b) \<Rightarrow> exn + 'b" where
  "bind_exn r f = (case r of Inl e \<Rightarrow> Inl e | Inr x \<Rightarrow> f x)"

definition py_len :: "json \<Rightarrow> exn + nat" where
  "py_len v =
     (case v of
        JList xs \<Rightarrow> Inr (length xs)
      | JDict kvs \<Rightarrow> Inr (length kvs)
      | JScalar (SStr s) \<Rightarrow> Inr (length s)
      | _ \<Rightarrow> Inl (TypeError (''object of type '' @ quoted (type_name v) @ '' has no len()'')))"

fun contains_str :: "string \<Rightarrow> string \<Rightarrow> bool" where
  "contains_str k [] = (k = [])"
| "contains_str k (c # s) = (prefix k (c # s) \<or> contains_str k s)"

definition py_contains :: "string \<Rightarrow> json \<Rightarrow> exn + bool" where
  \<comment> \<open>\<open>k in v\<close> for a string \<open>k\<close>\<close>
  "py_contains k v =
     (case v of
        JDict kvs \<Rightarrow> Inr (map_of kvs k \<noteq> None)
      | JList xs \<Rightarrow> Inr (JScalar (SStr k) \<in> set xs)
      | JScalar (SStr s) \<Rightarrow> Inr (contains_str k s)
      | _ \<Rightarrow> Inl (TypeError (''argument of type '' @ quoted (type_name v) @ '' is not iterable'')))"

definition py_getitem :: "json \<Rightarrow> string \<Rightarrow> exn + json" where
  \<comment> \<open>\<open>v[k]\<close> for a string \<open>k\<close>\<close>
  "py_getitem v k =
     (case v of
        JDict kvs \<Rightarrow> (case map_of kvs k of Some x \<Rightarrow> Inr x | None \<Rightarrow> Inl (KeyError (quoted k)))
      | JList xs \<Rightarrow> Inl (TypeError ''list indices must be integers or slices, not str'')
      | JScalar (SStr s) \<Rightarrow> Inl (TypeError (''string indices must be integers, not '' @ quoted ''str''))
      | _ \<Rightarrow> Inl (TypeError (quoted (type_name v) @ '' object is not subscriptable'')))"

definition py_first :: "json \<Rightarrow> exn + json" where
  \<comment> \<open>\<open>v[0]\<close>\<close>
  "py_first v =
     (case v of
        JList xs \<Rightarrow> (case xs of [] \<Rightarrow> Inl (IndexError ''list index out of range'') | x # _ \<Rightarrow> Inr x)
      | JDict kvs \<Rightarrow> Inl (KeyError ''0'')
      | JScalar (SStr s) \<Rightarrow>
          (case s of [] \<Rightarrow> Inl (IndexError ''string index out of range'')
           | c # _ \<Rightarrow> Inr (JScalar (SStr [c])))
      | _ \<Rightarrow> Inl (TypeError (quoted (type_name v) @ '' object is not subscriptable'')))"

definition has_listings :: "json \<Rightarrow> exn + bool" where
  \<comment> \<open>\<open>result.get('data') and len(result['data']) > 0\<close>\<close>
  "has_listings result =
     (case result of
        JDict d \<Rightarrow>
          (let data = dict_get d ''data'' (JScalar SNone) in
           if \<not> truthy data then Inr False
           else bind_exn (py_len data) (\<lambda>n. Inr (n > 0)))
      | _ \<Rightarrow> Inl (no_attribute result ''get''))"

section \<open>Provider clients\<close>

definition api_base_url :: string where
  "api_base_url = ''https://listings.platform.autotrader.com.au/api/v3/search''"

definition autotrader_get_cookies :: "world \<Rightarrow> bool \<times> world" where
  "autotrader_get_cookies w =
     (case session_get \<lparr>req_url = ''https://www.autotrader.com.au/'', req_params = [],
                         req_headers = get_default_headers, req_timeout = 30\<rparr> w of
        (Inl e, w') \<Rightarrow> (False, w')
      | (Inr (code, body), w') \<Rightarrow> (code = 200, w'))"

definition autotrader_fallback ::
  "json \<Rightarrow> string \<Rightarrow> (string \<times> string) list \<Rightarrow> csv_row \<Rightarrow> world \<Rightarrow> json option \<times> world" where
  \<comment> \<open>the fallback search, entered with the empty \<open>result\<close> of the primary query\<close>
  "autotrader_fallback result dealer_id headers csv_row w =
     (let w1 = add_delay 1 2 w;
          fallback_params = build_fallback_search_params csv_row dealer_id None
      in case session_get \<lparr>req_url = api_base_url, req_params = fallback_params,
                            req_headers = headers, req_timeout = 30\<rparr> w1 of
           (Inl e, w2) \<Rightarrow> (None, w2)
         | (Inr (code, body), w2) \<Rightarrow>
             if code = 200 then
               (case body of
                  None \<Rightarrow> (None, w2)
                | Some fallback_result \<Rightarrow>
                    (case has_listings fallback_result of
                       Inl e \<Rightarrow> (None, w2)
                     | Inr found \<Rightarrow> if found then (Some fallback_result, w2) else (Some result, w2)))
             else (Some result, w2))"

definition autotrader_retry ::
  "params \<Rightarrow> (string \<times> string) list \<Rightarrow> world \<Rightarrow> json option \<times> world" where
  \<comment> \<open>the branch taken when the primary query answers 403\<close>
  "autotrader_retry ps headers w =
     (let w1 = add_delay 5 8 w;
          headers' = AList.update ''user-agent''
            ''Mozilla/5.0 (Windows NT 10.0; Win64; x64) AppleWebKit/537.36 (KHTML, like Gecko) Chrome/139.0.0.0 Safari/537.36 Edg/139.0.0.0''
            headers;
          w2 = snd (autotrader_get_cookies w1)
      in case session_get \<lparr>req_url = api_base_url, req_params = ps,
                            req_headers = headers', req_timeout = 30\<rparr> w2 of
           (Inl e, w3) \<Rightarrow> (None, w3)
         | (Inr (code, body), w3) \<Rightarrow> if code = 200 then (body, w3) else (None, w3))"

definition autotrader_search_vehicle ::
  "string \<Rightarrow> string \<Rightarrow> csv_row option \<Rightarrow> world \<Rightarrow> json option \<times> world" where
  "autotrader_search_vehicle stock_no dealer_id csv_row w =
     (case autotrader_get_cookies w of
        (False, w1) \<Rightarrow> (None, w1)
      | (True, w1) \<Rightarrow>
          (let w2 = add_delay 1 3 w1;
               ps = [(''stock_no'', stock_no), (''dealer_id'', dealer_id)];
               headers = AList.update ''referer'' ''https://www.autotrader.com.au/cars/search''
                           get_default_headers
           in case session_get \<lparr>req_url = api_base_url, req_params = ps,
                                 req_headers = headers, req_timeout = 30\<rparr> w2 of
                (Inl e, w3) \<Rightarrow> (None, w3)
              | (Inr (code, body), w3) \<Rightarrow>
                  if code = 200 then
                    (case body of
                       None \<Rightarrow> (None, w3)
                     | Some result \<Rightarrow>
                         (case has_listings result of
                            Inl e \<Rightarrow> (None, w3)
                          | Inr found \<Rightarrow>
                              if found then (Some result, w3)
                              else
                                (case csv_row of
                                   None \<Rightarrow> (Some result, w3)
                                 | Some r \<Rightarrow>
                                     if r \<noteq> []
                                     then autotrader_fallback result dealer_id headers r w3
                                     else (Some result, w3))))
                  else if code = 403 then autotrader_retry ps headers w3
                  else (None, w3)))"

definition autotrader_extract_vehicle_data :: "json option \<Rightarrow> exn + json" where
  "autotrader_extract_vehicle_data api_data =
     (case api_data of
        None \<Rightarrow> Inr (JScalar SNone)
      | Some a \<Rightarrow>
          if \<not> truthy a then Inr (JScalar SNone)
          else bind_exn (py_contains ''data'' a) (\<lambda>has_data.
            if \<not> has_data then Inr (JScalar SNone)
            else bind_exn (py_getitem a ''data'') (\<lambda>data.
              if \<not> truthy data then Inr (JScalar SNone)
              else bind_exn (py_first data) (\<lambda>item. py_getitem item ''_source''))))"

definition carsguide_get_cookies :: "world \<Rightarrow> bool \<times> world" where
  "carsguide_get_cookies w =
     (case session_get \<lparr>req_url = ''https://www.carsguide.com.au/'', req_params = [],
                         req_headers = get_default_headers, req_timeout = 30\<rparr> w of
        (Inl e, w') \<Rightarrow> (False, w')
      | (Inr (code, body), w') \<Rightarrow> (code = 200, w'))"

definition carsguide_fallback ::
  "json \<Rightarrow> string \<Rightarrow> (string \<times> string) list \<Rightarrow> csv_row \<Rightarrow> world \<Rightarrow> json option \<times> world" where
  "carsguide_fallback result dealer_id headers csv_row w =
     (let w1 = add_delay 1 2 w;
          fallback_params = build_fallback_search_params csv_row dealer_id (Some ''CG'')
      in case session_get \<lparr>req_url = api_base_url, req_params = fallback_params,
                            req_headers = headers, req_timeout = 30\<rparr> w1 of
           (Inl e, w2) \<Rightarrow> (None, w2)
         | (Inr (code, body), w2) \<Rightarrow>
             if code = 200 then
               (case body of
                  None \<Rightarrow> (None, w2)
                | Some fallback_result \<Rightarrow>
                    (case has_listings fallback_result of
                       Inl e \<Rightarrow> (None, w2)
                     | Inr found \<Rightarrow> if found then (Some fallback_result, w2) else (Some result, w2)))
             else (Some result, w2))"

definition carsguide_retry ::
  "params \<Rightarrow> (string \<times> string) list \<Rightarrow> world \<Rightarrow> json option \<times> world" where
  "carsguide_retry ps headers w =
     (let w1 = add_delay 5 8 w;
          headers' = AList.update ''user-agent''
            ''Mozilla/5.0 (X11; Linux x86_64) AppleWebKit/537.36 (KHTML, like Gecko) Chrome/139.0.0.0 Safari/537.36''
            headers;
          w2 = snd (carsguide_get_cookies w1)
      in case session_get \<lparr>req_url = api_base_url, req_params = ps,
                            req_headers = headers', req_timeout = 30\<rparr> w2 of
           (Inl e, w3) \<Rightarrow> (None, w3)
         | (Inr (code, body), w3) \<Rightarrow> if code = 200 then (body, w3) else (None, w3))"

definition carsguide_search_vehicle ::
  "string \<Rightarrow> string \<Rightarrow> string option \<Rightarrow> csv_row option \<Rightarrow> world \<Rightarrow> json option \<times> world" where
  "carsguide_search_vehicle stock_no dealer_id make_arg csv_row w =
     (case carsguide_get_cookies w of
        (False, w1) \<Rightarrow> (None, w1)
      | (True, w1) \<Rightarrow>
          (let w2 = add_delay 1 3 w1;
               ps0 = [(''stock_no'', stock_no), (''dealer_id'', dealer_id), (''source'', ''CG''),
                      (''ipLookup'', ''1''), (''sorting_variation'', ''smart_sort_3''),
                      (''paginate'', ''26'')];
               ps = (case make_arg of
                       None \<Rightarrow> ps0
                     | Some m \<Rightarrow> if m \<noteq> [] then AList.update ''make'' m ps0 else ps0);
               headers = AList.update ''sec-fetch-site'' ''cross-site''
                           (AList.update ''referrer'' ''https://www.carsguide.com.au/''
                              get_default_headers)
           in case session_get \<lparr>req_url = api_base_url, req_params = ps,
                                 req_headers = headers, req_timeout = 30\<rparr> w2 of
                (Inl e, w3) \<Rightarrow> (None, w3)
              | (Inr (code, body), w3) \<Rightarrow>
                  if code = 200 then
                    (case body of
                       None \<Rightarrow> (None, w3)
                     | Some result \<Rightarrow>
                         (case has_listings result of
                            Inl e \<Rightarrow> (None, w3)
                          | Inr found \<Rightarrow>
                              if found then (Some result, w3)
                              else
                                (case csv_row of
                                   None \<Rightarrow> (Some result, w3)
                                 | Some r \<Rightarrow>
                                     if r \<noteq> []
                                     then carsguide_fallback result dealer_id headers r w3
                                     else (Some result, w3))))
                  else if code = 403 then carsguide_retry ps headers w3
                  else (None, w3)))"

definition carsguide_extract_vehicle_data :: "json option \<Rightarrow> exn + json" where
  "carsguide_extract_vehicle_data api_data =
     (case api_data of
        None \<Rightarrow> Inr (JScalar SNone)
      | Some a \<Rightarrow>
          if \<not> truthy a then Inr (JScalar SNone)
          else bind_exn (py_contains ''data'' a) (\<lambda>has_data.
            if \<not> has_data then Inr (JScalar SNone)
            else bind_exn (py_getitem a ''data'') (\<lambda>data.
              if \<not> truthy data then Inr (JScalar SNone)
              else bind_exn (py_first data) (\<lambda>item. py_getitem item ''_source''))))"

section \<open>Batch orchestrator\<close>

text \<open>
  The table is a list of rows, each row an association list from column names to
  cells, all rows with the same columns. \<open>df.at[index, c] = v\<close> is \<open>AList.update c v\<close> on
  the row. Loading the table and writing it back are outside the model:
  \<open>process_csv_file\<close> starts from the loaded rows and returns the rows to be written.
\<close>

definition row_get :: "csv_row \<Rightarrow> string \<Rightarrow> scalar \<Rightarrow> scalar" where
  \<comment> \<open>\<open>row.get(k, default)\<close>\<close>
  "row_get row k dflt = (case map_of row k of Some v \<Rightarrow> v | None \<Rightarrow> dflt)"

definition to_cell :: "json \<Rightarrow> scalar" where
  \<comment> \<open>the value stored in a cell; the URL stored by the orchestrator is always a string\<close>
  "to_cell v = (case v of JScalar s \<Rightarrow> s | _ \<Rightarrow> SStr (py_repr v))"

definition set_columns :: "string \<Rightarrow> scalar \<Rightarrow> scalar \<Rightarrow> scalar \<Rightarrow> csv_row \<Rightarrow> csv_row" where
  \<comment> \<open>the three assignments to a provider's status, notes and URL columns\<close>
  "set_columns provider status notes url row =
     AList.update (provider @ '' URL'') url
       (AList.update (provider @ '' Notes'') notes
          (AList.update provider status row))"

definition notes_text :: "string list \<Rightarrow> string" where
  \<comment> \<open>\<open>'; '.join(mismatches) if mismatches else ''\<close>\<close>
  "notes_text mismatches = (if mismatches \<noteq> [] then join ''; '' mismatches else [])"

definition autotrader_columns ::
  "csv_row \<Rightarrow> string \<Rightarrow> bool \<Rightarrow> json option \<Rightarrow> csv_row \<Rightarrow> world \<Rightarrow> exn option \<times> csv_row \<times> world" where
  \<comment> \<open>the block "Process AutoTrader result"\<close>
  "autotrader_columns car_dict combined_stock_no save_results autotrader_result row w =
     (let api_error = (None, set_columns ''Autotrader'' (SStr ''API Error'')
                         (SStr ''Failed to retrieve data from AutoTrader API'') (SStr []) row, w)
      in case autotrader_result of
        None \<Rightarrow> api_error
      | Some r \<Rightarrow>
          if \<not> truthy r then api_error
          else
            (case py_contains ''data'' r of
               Inl e \<Rightarrow> (Some e, row, w)
             | Inr has_data \<Rightarrow>
                 if \<not> has_data then api_error
                 else
                   (case bind_exn (py_getitem r ''data'') py_len of
                      Inl e \<Rightarrow> (Some e, row, w)
                    | Inr n \<Rightarrow>
                        if n = 0 then
                          (None, set_columns ''Autotrader'' (SStr ''Not Found'')
                             (SStr ''Vehicle not found in AutoTrader API'') (SStr []) row, w)
                        else
                          (let w1 = (if save_results
                                     then save_json_file (''autotrader_'' @ combined_stock_no @ ''_'') w
                                     else w)
                           in case bind_exn (autotrader_extract_vehicle_data (Some r))
                                   (\<lambda>vehicle_data.
                                      bind_exn (autotrader_compare_data car_dict vehicle_data)
                                        (\<lambda>(at_status, at_mismatches).
                                           bind_exn (extract_vehicle_url vehicle_data ''autotrader'')
                                             (\<lambda>at_url. Inr (at_status, at_mismatches, at_url)))) of
                                Inl e \<Rightarrow> (Some e, row, w1)
                              | Inr (at_status, at_mismatches, at_url) \<Rightarrow>
                                  (None, set_columns ''Autotrader'' (SStr at_status)
                                     (SStr (notes_text at_mismatches)) (to_cell at_url) row, w1)))))"

definition carsguide_columns ::
  "csv_row \<Rightarrow> string \<Rightarrow> bool \<Rightarrow> json option \<Rightarrow> csv_row \<Rightarrow> world \<Rightarrow> exn option \<times> csv_row \<times> world" where
  \<comment> \<open>the block "Process Carsguide result"\<close>
  "carsguide_columns car_dict combined_stock_no save_results carsguide_result row w =
     (let api_error = (None, set_columns ''Carsguide'' (SStr ''API Error'')
                         (SStr ''Failed to retrieve data from Carsguide API'') (SStr []) row, w)
      in case carsguide_result of
        None \<Rightarrow> api_error
      | Some r \<Rightarrow>
          if \<not> truthy r then api_error
          else
            (case py_contains ''data'' r of
               Inl e \<Rightarrow> (Some e, row, w)
             | Inr has_data \<Rightarrow>
                 if \<not> has_data then api_error
                 else
                   (case bind_exn (py_getitem r ''data'') py_len of
                      Inl e \<Rightarrow> (Some e, row, w)
                    | Inr n \<Rightarrow>
                        if n = 0 then
                          (None, set_columns ''Carsguide'' (SStr ''Not Found'')
                             (SStr ''Vehicle not found in Carsguide API'') (SStr []) row, w)
                        else
                          (let w1 = (if save_results
                                     then save_json_file (''carsguide_'' @ combined_stock_no @ ''_'') w
                                     else w)
                           in case bind_exn (carsguide_extract_vehicle_data (Some r))
                                   (\<lambda>vehicle_data.
                                      bind_exn (carsguide_compare_data car_dict vehicle_data)
                                        (\<lambda>(cg_status, cg_mismatches).
                                           bind_exn (extract_vehicle_url vehicle_data ''carsguide'')
                                             (\<lambda>cg_url. Inr (cg_status, cg_mismatches, cg_url)))) of
                                Inl e \<Rightarrow> (Some e, row, w1)
                              | Inr (cg_status, cg_mismatches, cg_url) \<Rightarrow>
                                  (None, set_columns ''Carsguide'' (SStr cg_status)
                                     (SStr (notes_text cg_mismatches)) (to_cell cg_url) row, w1)))))"

definition identity_key_missing :: "string \<Rightarrow> string \<Rightarrow> bool" where
  \<comment> \<open>\<open>not year or not stock_no or pd.isna(year) or pd.isna(stock_no)\<close>, on the two strings\<close>
  "identity_key_missing year stock_no =
     (year = [] \<or> stock_no = [] \<or> pd_isna (SStr year) \<or> pd_isna (SStr stock_no))"

definition process_row_body :: "csv_row \<Rightarrow> bool \<Rightarrow> world \<Rightarrow> exn option \<times> csv_row \<times> world" where
  \<comment> \<open>the body of the \<open>try\<close> for one row: the exception raised, if any, with the row and
      the world as they are when it is raised\<close>
  "process_row_body row save_results w =
     (let year = str_scalar (row_get row ''Year'' (SStr []));
          stock_no = str_scalar (row_get row ''StockNo'' (SStr []));
          make_str = str_scalar (row_get row ''Make'' (SStr []))
      in if identity_key_missing year stock_no then
           (None,
            set_columns ''Carsguide'' (SStr ''Not Searched'') (SStr ''Missing Year or StockNo'') (SStr [])
              (set_columns ''Autotrader'' (SStr ''Not Searched'') (SStr ''Missing Year or StockNo'')
                 (SStr []) row),
            w)
         else
           (let combined_stock_no = year @ stock_no;
                dealer_id = ''12751'';
                car_dict = row;
                (autotrader_result, w1) =
                   autotrader_search_vehicle combined_stock_no dealer_id (Some car_dict) w
            in case autotrader_columns car_dict combined_stock_no save_results autotrader_result row w1 of
                 (Some e, row1, w2) \<Rightarrow> (Some e, row1, w2)
               | (None, row1, w2) \<Rightarrow>
                   (let w3 = add_delay 1 2 w2;
                        (carsguide_result, w4) =
                           carsguide_search_vehicle combined_stock_no dealer_id
                             (if make_str \<noteq> [] \<and> \<not> pd_isna (SStr make_str) then Some make_str else None)
                             (Some car_dict) w3
                    in case carsguide_columns car_dict combined_stock_no save_results
                              carsguide_result row1 w4 of
                         (Some e, row2, w5) \<Rightarrow> (Some e, row2, w5)
                       | (None, row2, w5) \<Rightarrow> (None, row2, add_delay 1 2 w5))))"

definition process_row :: "csv_row \<Rightarrow> bool \<Rightarrow> world \<Rightarrow> csv_row \<times> world" where
  \<comment> \<open>one turn of the loop over the rows: the \<open>try\<close> and its \<open>except Exception\<close>\<close>
  "process_row row save_results w =
     (case process_row_body row save_results w of
        (None, row', w') \<Rightarrow> (row', w')
      | (Some e, row', w') \<Rightarrow>
          (set_columns ''Carsguide'' (SStr ''Error'') (SStr (''Error processing: '' @ exn_str e)) (SStr [])
             (set_columns ''Autotrader'' (SStr ''Error'') (SStr (''Error processing: '' @ exn_str e))
                (SStr []) row'),
           w'))"

fun process_rows :: "csv_row list \<Rightarrow> bool \<Rightarrow> world \<Rightarrow> csv_row list \<times> world" where
  "process_rows [] save_results w = ([], w)"
| "process_rows (row # rows) save_results w =
     (let (row', w') = process_row row save_results w;
          (rows', w'') = process_rows rows save_results w'
      in (row' # rows', w''))"

definition add_column :: "string \<Rightarrow> csv_row \<Rightarrow> csv_row" where
  \<comment> \<open>\<open>if c not in df.columns: df[c] = ''\<close>, on one row\<close>
  "add_column c row = (if map_of row c = None then row @ [(c, SStr [])] else row)"

definition add_output_columns :: "csv_row \<Rightarrow> csv_row" where
  "add_output_columns row =
     add_column ''Carsguide URL'' (add_column ''Carsguide Notes'' (add_column ''Carsguide''
       (add_column ''Autotrader URL'' (add_column ''Autotrader Notes''
          (add_column ''Autotrader'' row)))))"

definition process_csv_file :: "csv_row list \<Rightarrow> bool \<Rightarrow> world \<Rightarrow> csv_row list \<times> world" where
  "process_csv_file df save_results w = process_rows (map add_output_columns df) save_results w"

section \<open>Reading a trace\<close>

fun requests_of :: "event list \<Rightarrow> request list" where
  \<comment> \<open>the requests of a trace, in the order they were sent\<close>
  "requests_of [] = []"
| "requests_of (Get r # es) = r # requests_of es"
| "requests_of (Sleep lo hi # es) = requests_of es"
| "requests_of (SaveJson f # es) = requests_of es"

section \<open>Reconciliation on an object store\<close>

text \<open>
  Python passes the source record and the listing by reference. To state that the
  comparison changes neither, the same function is written over a store of objects,
  addressed by position: \<open>csv_data\<close> and \<open>vehicle_data\<close> are addresses, every read goes
  to the store, \<open>mismatched = []\<close> allocates a new list object at the end of the store and
  \<open>mismatched.append(x)\<close> replaces that object by the longer list. A call whose
  addresses do not hold a source record and a listing is not a call of the program
  and is \<open>None\<close>.
\<close>

datatype obj = Row csv_row | Doc json | Notes "string list"

type_synonym store = "obj list"

definition append_step :: "nat \<Rightarrow> nat \<Rightarrow> nat \<Rightarrow> store \<Rightarrow> string \<times> string list \<Rightarrow> store" where
  \<comment> \<open>one turn of the comparison loop, reading both inputs and the list from the store\<close>
  "append_step a b m s fp =
     (case (s ! a, s ! b, s ! m) of
        (Row csv_data, Doc vehicle_data, Notes mismatched) \<Rightarrow>
          s[m := Notes (autotrader_compare_field csv_data vehicle_data mismatched fp)]
      | _ \<Rightarrow> s)"

definition compare_loop_on :: "nat \<Rightarrow> nat \<Rightarrow> store \<Rightarrow> (string \<times> string list) \<times> store" where
  "compare_loop_on a b s =
     (let m = length s;
          s1 = s @ [Notes []];
          s2 = foldl (append_step a b m) s1 autotrader_comparison_fields;
          mismatched = (case s2 ! m of Notes ns \<Rightarrow> ns | _ \<Rightarrow> [])
      in (if mismatched \<noteq> [] then (''Mismatched'', mismatched) else (''Found'', []), s2))"

definition autotrader_compare_data_on ::
  "nat \<Rightarrow> nat \<Rightarrow> store \<Rightarrow> ((exn + string \<times> string list) \<times> store) option" where
  "autotrader_compare_data_on a b s =
     (if a < length s \<and> b < length s then
        (case (s ! a, s ! b) of
           (Row csv_data, Doc vehicle_data) \<Rightarrow>
             Some
               (if \<not> truthy vehicle_data then (Inr (''Not Found'', []), s)
                else case vehicle_data of
                  JDict d \<Rightarrow>
                    (let status = dict_get d ''status'' (JScalar SNone) in
                     if truthy status then
                       (case status of
                          JScalar (SStr st) \<Rightarrow>
                            if py_lower st \<noteq> ''live'' then
                              (if py_lower st = ''sold'' then (Inr (''Sold'', []), s)
                               else if py_lower st = ''on offer'' then (Inr (''On Offer'', []), s)
                               else (Inr (fst (compare_loop_on a b s)), snd (compare_loop_on a b s)))
                            else (Inr (fst (compare_loop_on a b s)), snd (compare_loop_on a b s))
                        | _ \<Rightarrow> (Inl (no_attribute status ''lower''), s))
                     else (Inr (fst (compare_loop_on a b s)), snd (compare_loop_on a b s)))
                | _ \<Rightarrow> (Inl (no_attribute vehicle_data ''get''), s))
         | _ \<Rightarrow> None)
      else None)"

section \<open>The requests of a lookup\<close>











definition fallback_result :: "json \<Rightarrow> outcome list \<Rightarrow> json option" where
  \<comment> \<open>what the lookup returns after a fallback query whose answer is the head of the script\<close>
  "fallback_result result p =
     (case reply p of
        Inl e \<Rightarrow> None
      | Inr (code, body) \<Rightarrow>
          if code = 200 then
            (case body of
               None \<Rightarrow> None
             | Some fallback_result \<Rightarrow>
                 (case has_listings fallback_result of
                    Inl e \<Rightarrow> None
                  | Inr found \<Rightarrow> if found then Some fallback_result else Some result))
          else Some result)"

section \<open>Evaluation rules\<close>

lemma digits_of_small: "n < 10 \<Longrightarrow> digits_of n = [digit_char n]"
  by (subst digits_of.simps) simp

lemma digits_of_large:
  "\<not> n < 10 \<Longrightarrow> digits_of n = digits_of (n div 10) @ [digit_char (n mod 10)]"
  by (subst digits_of.simps) simp

lemmas py_eval =
  code_point_def is_ascii_def is_digit_def is_space_def is_c_space_def is_upper_def
  lower_char_def py_lower_def strip_with_def py_strip_def remove_commas_def digit_value_def
  py_int_def digit_char_def digits_of_small digits_of_large str_int_def dict_get_def

section \<open>The two providers compare alike\<close>

lemma compare_field_same: "carsguide_compare_field = autotrader_compare_field"
  by (intro ext) (simp only: carsguide_compare_field_def autotrader_compare_field_def)

lemma comparison_fields_same: "carsguide_comparison_fields = autotrader_comparison_fields"
  by (simp only: carsguide_comparison_fields_def autotrader_comparison_fields_def)

lemma compare_loop_same: "carsguide_compare_loop = autotrader_compare_loop"
  by (intro ext)
     (simp only: carsguide_compare_loop_def autotrader_compare_loop_def compare_field_same
        comparison_fields_same)

lemma compare_data_same: "carsguide_compare_data = autotrader_compare_data"
  by (intro ext)
     (simp only: carsguide_compare_data_def autotrader_compare_data_def compare_loop_same)

text \<open>
  Claim C8. The two reconciliation functions are extensionally equal: on every source
  record and listing the Carsguide comparison returns what the AutoTrader comparison
  returns, status and mismatch list alike. Both use the same field map, in which the
  source fields \<open>Transmission\<close> and \<open>Tansmission\<close> are read from the same listing path,
  the transmission type inside the listing's specification group (the key \<open>vehicle\<close>).
\<close>

theorem providers_compare_alike:
  "carsguide_compare_data csv_data vehicle_data = autotrader_compare_data csv_data vehicle_data
   \<and> carsguide_comparison_fields = autotrader_comparison_fields
   \<and> map_of autotrader_comparison_fields ''Transmission'' = Some [''vehicle'', ''transmission_type'']
   \<and> map_of autotrader_comparison_fields ''Tansmission'' = Some [''vehicle'', ''transmission_type'']"
  by (simp add: compare_data_same comparison_fields_same autotrader_comparison_fields_def)

theorem providers_compare_alike_witness:
  "carsguide_compare_data [(''Tansmission'', SStr ''Auto'')]
     (JDict [(''vehicle'', JDict [(''transmission_type'', JScalar (SStr ''Manual''))])])
   = Inr (''Mismatched'', [''Tansmission: CSV=Auto, API=Manual''])"
  using providers_compare_alike [of "[(''Tansmission'', SStr ''Auto'')]"
     "JDict [(''vehicle'', JDict [(''transmission_type'', JScalar (SStr ''Manual''))])]"]
  by (simp add: autotrader_compare_data_def autotrader_compare_loop_def
      autotrader_comparison_fields_def autotrader_compare_field_def py_eval)

section \<open>Listing URLs\<close>



section \<open>The status of a listing\<close>




section \<open>The comparison loop\<close>

lemma compare_field_append:
  "autotrader_compare_field csv v m fp = m @ autotrader_compare_field csv v [] fp"
  by (cases fp) (simp add: autotrader_compare_field_def Let_def split: option.splits)

lemma foldl_compare_field:
  "foldl (autotrader_compare_field csv v) m fps
     = m @ concat (map (autotrader_compare_field csv v []) fps)"
proof (induction fps arbitrary: m)
  case Nil
  show ?case by simp
next
  case (Cons fp fps)
  show ?case
    by (simp add: Cons.IH [of "autotrader_compare_field csv v m fp"])
       (simp add: compare_field_append [of csv v m fp])
qed

lemma compare_field_absent:
  "walk_path v api_path = JScalar SNone \<Longrightarrow>
   autotrader_compare_field csv v m (csv_field, api_path) = m"
  by (simp add: autotrader_compare_field_def split: option.splits)

lemma compare_field_shape:
  "autotrader_compare_field csv v [] (csv_field, api_path) = [] \<or>
   (\<exists>rest. autotrader_compare_field csv v [] (csv_field, api_path) = [csv_field @ '': '' @ rest])"
  by (simp add: autotrader_compare_field_def Let_def split: option.splits)

lemma other_field_no_price_note:
  assumes "csv_field \<in> {''Fuel'', ''Model'', ''Seats'', ''Doors'', ''Transmission'', ''Tansmission''}"
  shows "filter (prefix ''Price: '') (autotrader_compare_field csv v [] (csv_field, api_path)) = []"
proof -
  have no: "\<not> prefix ''Price: '' (csv_field @ '': '' @ rest)" for rest
    using assms by auto
  show ?thesis
    using compare_field_shape [of csv v csv_field api_path] no by auto
qed

lemma snd_compare_loop:
  "snd (autotrader_compare_loop csv v)
     = concat (map (autotrader_compare_field csv v []) autotrader_comparison_fields)"
proof -
  have "foldl (autotrader_compare_field csv v) [] autotrader_comparison_fields
          = concat (map (autotrader_compare_field csv v []) autotrader_comparison_fields)"
    by (simp only: foldl_compare_field append_Nil)
  then show ?thesis
    by (simp add: autotrader_compare_loop_def Let_def)
qed

lemma fst_compare_loop:
  "fst (autotrader_compare_loop csv v)
     = (if snd (autotrader_compare_loop csv v) = [] then ''Found'' else ''Mismatched'')"
  by (simp add: autotrader_compare_loop_def Let_def)

lemma loop_price_notes:
  "filter (prefix ''Price: '') (snd (autotrader_compare_loop csv v))
     = filter (prefix ''Price: '')
         (autotrader_compare_field csv v [] (''Price'', [''price'', ''advertised_price'']))"
  by (simp add: snd_compare_loop autotrader_comparison_fields_def other_field_no_price_note)


lemma live_compare_data:
  "map_of d ''status'' = Some (JScalar (SStr s)) \<Longrightarrow> py_lower s = ''live'' \<Longrightarrow>
   autotrader_compare_data csv (JDict d) = Inr (autotrader_compare_loop csv (JDict d))"
proof -
  assume st: "map_of d ''status'' = Some (JScalar (SStr s))" and live: "py_lower s = ''live''"
  from st have d: "d \<noteq> []" by auto
  from live have s: "s \<noteq> []" by (auto simp: py_lower_def)
  have "autotrader_compare_data csv (JDict d) =
      (if py_lower s \<noteq> ''live'' then
         (if py_lower s = ''sold'' then Inr (''Sold'', [])
          else if py_lower s = ''on offer'' then Inr (''On Offer'', [])
          else Inr (autotrader_compare_loop csv (JDict d)))
       else Inr (autotrader_compare_loop csv (JDict d)))"
    using st d s by (simp add: autotrader_compare_data_def dict_get_def)
  then show ?thesis
    by (simp only: live) simp
qed

section \<open>Price tolerance\<close>



section \<open>Values missing from the listing\<close>

text \<open>
  Claim C10. A source field whose path is absent from the listing leaves the mismatch
  list as it was, whatever the source record holds for it. In the comparison of a live
  listing with no advertised price the mismatch list has no Price note; and when every
  compared path is absent from a live listing, the outcome is \<open>Found\<close> with no mismatch.
  Both providers agree.
\<close>

theorem absent_listing_value_skipped:
  "(walk_path vehicle_data api_path = JScalar SNone \<longrightarrow>
      autotrader_compare_field csv_data vehicle_data mismatched (csv_field, api_path) = mismatched \<and>
      carsguide_compare_field csv_data vehicle_data mismatched (csv_field, api_path) = mismatched)
   \<and> (map_of d ''status'' = Some (JScalar (SStr s)) \<longrightarrow> py_lower s = ''live'' \<longrightarrow>
        walk_path (JDict d) [''price'', ''advertised_price''] = JScalar SNone \<longrightarrow>
        (\<exists>status notes.
           autotrader_compare_data csv_data (JDict d) = Inr (status, notes) \<and>
           carsguide_compare_data csv_data (JDict d) = Inr (status, notes) \<and>
           filter (prefix ''Price: '') notes = []))
   \<and> (map_of d ''status'' = Some (JScalar (SStr s)) \<longrightarrow> py_lower s = ''live'' \<longrightarrow>
        (\<forall>fp \<in> set autotrader_comparison_fields. walk_path (JDict d) (snd fp) = JScalar SNone) \<longrightarrow>
        autotrader_compare_data csv_data (JDict d) = Inr (''Found'', []) \<and>
        carsguide_compare_data csv_data (JDict d) = Inr (''Found'', []))"
proof (intro conjI impI)
  assume "walk_path vehicle_data api_path = JScalar SNone"
  then show "autotrader_compare_field csv_data vehicle_data mismatched (csv_field, api_path) = mismatched"
    by (rule compare_field_absent)
  then show "carsguide_compare_field csv_data vehicle_data mismatched (csv_field, api_path) = mismatched"
    by (simp only: compare_field_same)
next
  assume st: "map_of d ''status'' = Some (JScalar (SStr s))" and live: "py_lower s = ''live''"
    and absent: "walk_path (JDict d) [''price'', ''advertised_price''] = JScalar SNone"
  let ?r = "autotrader_compare_loop csv_data (JDict d)"
  have run: "autotrader_compare_data csv_data (JDict d) = Inr (fst ?r, snd ?r)"
    using live_compare_data [OF st live] by simp
  have none: "filter (prefix ''Price: '') (snd ?r) = []"
    unfolding loop_price_notes by (simp add: compare_field_absent [OF absent])
  show "\<exists>status notes.
           autotrader_compare_data csv_data (JDict d) = Inr (status, notes) \<and>
           carsguide_compare_data csv_data (JDict d) = Inr (status, notes) \<and>
           filter (prefix ''Price: '') notes = []"
    unfolding compare_data_same
    by (intro exI [of _ "fst ?r"] exI [of _ "snd ?r"] conjI run none)
next
  assume st: "map_of d ''status'' = Some (JScalar (SStr s))" and live: "py_lower s = ''live''"
    and absent: "\<forall>fp \<in> set autotrader_comparison_fields. walk_path (JDict d) (snd fp) = JScalar SNone"
  have each: "autotrader_compare_field csv_data (JDict d) [] fp = []"
    if "fp \<in> set autotrader_comparison_fields" for fp
    using compare_field_absent [of "JDict d" "snd fp" csv_data "[]" "fst fp"] absent that
    by simp
  have "snd (autotrader_compare_loop csv_data (JDict d)) = []"
    unfolding snd_compare_loop using each by simp
  then have "autotrader_compare_loop csv_data (JDict d) = (''Found'', [])"
    using fst_compare_loop [of csv_data "JDict d"] by (simp add: prod_eq_iff)
  then show "autotrader_compare_data csv_data (JDict d) = Inr (''Found'', [])"
    using live_compare_data [OF st live] by simp
  then show "carsguide_compare_data csv_data (JDict d) = Inr (''Found'', [])"
    by (simp only: compare_data_same)
qed

theorem absent_listing_value_skipped_witness:
  "autotrader_compare_data [(''Price'', SStr ''20000''), (''Model'', SStr ''Corolla'')]
      (JDict [(''status'', JScalar (SStr ''live''))]) = Inr (''Found'', [])
   \<and> autotrader_compare_field [(''Price'', SStr ''20000'')]
        (JDict [(''status'', JScalar (SStr ''live''))]) [''Model: CSV=Corolla, API=Camry'']
        (''Price'', [''price'', ''advertised_price'']) = [''Model: CSV=Corolla, API=Camry'']"
  using absent_listing_value_skipped [of "JDict [(''status'', JScalar (SStr ''live''))]"
          "[''price'', ''advertised_price'']" "[(''Price'', SStr ''20000''), (''Model'', SStr ''Corolla'')]"
          "[''Model: CSV=Corolla, API=Camry'']" "''Price''"
          "[(''status'', JScalar (SStr ''live''))]" "''live''"]
  by (simp add: autotrader_comparison_fields_def autotrader_compare_field_def py_eval)

section \<open>A record whose Year is missing\<close>

lemmas search_eval =
  reply_def session_get_def add_delay_def save_json_file_def
  autotrader_get_cookies_def autotrader_fallback_def autotrader_retry_def
  autotrader_search_vehicle_def carsguide_get_cookies_def carsguide_fallback_def
  carsguide_retry_def carsguide_search_vehicle_def has_listings_def bind_exn_def
  py_len_def py_contains_def py_getitem_def py_first_def

lemmas row_eval =
  row_get_def set_columns_def notes_text_def autotrader_columns_def carsguide_columns_def
  identity_key_missing_def process_row_body_def process_row_def
  autotrader_extract_vehicle_data_def carsguide_extract_vehicle_data_def to_cell_def

text \<open>
  Claim C3 at a record whose Year cell is the missing-value sentinel NaN (an empty
  cell of the input file) and whose StockNo is \<open>A1\<close>. The claim asks for
  \<open>Not Searched\<close> in both status columns and for no provider lookup. The code tests
  the text \<open>str(row.get('Year', ''))\<close>, which is \<open>nan\<close>, so the record is not skipped:
  both providers are queried with the stock number \<open>nanA1\<close>, and here, where both
  queries answer 404, both status columns are \<open>API Error\<close>.
\<close>

theorem nan_year_is_searched:
  "pd_isna (row_get [(''Year'', SFloat ''nan''), (''StockNo'', SStr ''A1'')] ''Year'' (SStr []))
   \<and> map req_params (requests_of (trace (snd
        (process_row [(''Year'', SFloat ''nan''), (''StockNo'', SStr ''A1'')] False
           \<lparr>pending = [Response 200 None, Response 404 None, Response 200 None, Response 404 None],
            trace = []\<rparr>))))
      = [[], [(''stock_no'', ''nanA1''), (''dealer_id'', ''12751'')],
         [], [(''stock_no'', ''nanA1''), (''dealer_id'', ''12751''), (''source'', ''CG''),
              (''ipLookup'', ''1''), (''sorting_variation'', ''smart_sort_3''),
              (''paginate'', ''26'')]]
   \<and> map_of (fst
        (process_row [(''Year'', SFloat ''nan''), (''StockNo'', SStr ''A1'')] False
           \<lparr>pending = [Response 200 None, Response 404 None, Response 200 None, Response 404 None],
            trace = []\<rparr>)) ''Autotrader'' = Some (SStr ''API Error'')
   \<and> map_of (fst
        (process_row [(''Year'', SFloat ''nan''), (''StockNo'', SStr ''A1'')] False
           \<lparr>pending = [Response 200 None, Response 404 None, Response 200 None, Response 404 None],
            trace = []\<rparr>)) ''Carsguide'' = Some (SStr ''API Error'')"
  by (simp add: search_eval row_eval Let_def)

section \<open>Answers of the script\<close>

lemma reply_Response [simp]: "reply (Response code body # rest) = Inr (code, body)"
  by (simp add: reply_def)

section \<open>Parameters of the fallback query\<close>













section \<open>Paths of the AutoTrader lookup\<close>








section \<open>Paths of the Carsguide lookup\<close>








section \<open>The fallback query\<close>




end
